theory Spec2Isabelle
  imports Complex_Main "HOL-Library.Sublist"
begin

section \<open>Values of the host language\<close>

text \<open>
  The validator works on untyped JavaScript values. The model keeps the value kinds that
  the code distinguishes (by \<^verbatim>\<open>typeof\<close>, \<^verbatim>\<open>Array.isArray\<close>,
  \<^verbatim>\<open>instanceof File\<close> and \<^verbatim>\<open>constructor === Object\<close>).

  Scope of the value model:
  \<^item> strings are lists of 8-bit characters, with the ASCII case mapping;
  \<^item> a finite number is the rational it denotes (rounding to 53 bits and the sign of
    zero are not represented);
  \<^item> a plain object is the list of its own properties in insertion order (integer-like
    keys are not moved to the front, as the language would when it enumerates them); an
    array is the list of its elements (a hole reads as \<^verbatim>\<open>undefined\<close>) together
    with its own non-index properties; properties inherited from a prototype, and the
    \<^verbatim>\<open>length\<close> of an array as a property, are not represented;
  \<^item> \<open>JFile name content\<close> is a File; \<open>JError name message\<close> is an Error object;
  \<^item> \<open>JInst c\<close> is any other object that is neither plain nor an array, with
    constructor name \<open>c\<close> and the default string conversion;
  \<^item> functions and symbols are not values of the model.
\<close>

datatype jsnum = NaN | PInf | NInf | Fin rat

datatype jsval =
    JUndefined
  | JNull
  | JBool bool
  | JNum jsnum
  | JBigInt int
  | JStr string
  | JFile string string
  | JInst string
  | JError string string
  | JArr "jsval list" "(string \<times> jsval) list"
  | JObj "(string \<times> jsval) list"

text \<open>\<^verbatim>\<open>value == null\<close>\<close>

fun nullish :: "jsval \<Rightarrow> bool" where
  "nullish JUndefined = True"
| "nullish JNull = True"
| "nullish _ = False"

text \<open>\<^verbatim>\<open>typeof value\<close>\<close>

fun typeof :: "jsval \<Rightarrow> string" where
  "typeof JUndefined = ''undefined''"
| "typeof JNull = ''object''"
| "typeof (JBool _) = ''boolean''"
| "typeof (JNum _) = ''number''"
| "typeof (JBigInt _) = ''bigint''"
| "typeof (JStr _) = ''string''"
| "typeof (JFile _ _) = ''object''"
| "typeof (JInst _) = ''object''"
| "typeof (JError _ _) = ''object''"
| "typeof (JArr _ _) = ''object''"
| "typeof (JObj _) = ''object''"

subsection \<open>Decimal digits\<close>

definition is_digit :: "char \<Rightarrow> bool" where
  "is_digit c = (c \<in> set ''0123456789'')"

definition digit_val :: "char \<Rightarrow> nat" where
  "digit_val c = of_char c - 48"

definition digit_char :: "nat \<Rightarrow> char" where
  "digit_char d = ''0123456789'' ! d"

fun string_of_nat :: "nat \<Rightarrow> string" where
  "string_of_nat n =
     (if n < 10 then [digit_char n]
      else string_of_nat (n div 10) @ [digit_char (n mod 10)])"

declare string_of_nat.simps [simp del]

definition string_of_int :: "int \<Rightarrow> string" where
  "string_of_int i = (if i < 0 then CHR ''-'' # string_of_nat (nat (- i)) else string_of_nat (nat i))"

definition nat_of_digits :: "string \<Rightarrow> nat" where
  "nat_of_digits s = foldl (\<lambda>a c. 10 * a + digit_val c) 0 s"

text \<open>White space of \<^verbatim>\<open>\s\<close> and of numeric string literals, within 8-bit characters.\<close>

definition is_space :: "char \<Rightarrow> bool" where
  "is_space c = ((of_char c :: nat) \<in> {9, 10, 11, 12, 13, 32, 160})"

definition trim :: "string \<Rightarrow> string" where
  "trim s = rev (dropWhile is_space (rev (dropWhile is_space s)))"


subsection \<open>Numbers to strings and back\<close>

text \<open>
  \<^verbatim>\<open>String(n)\<close> for a number: the digits \<open>s\<close> (without trailing zeros), their count
  \<open>k\<close> and the position \<open>n\<close> of the decimal point are computed from the rational; the
  four layouts (integer, fraction, small fraction, exponent) are those of the language
  definition. The number of fraction digits of a decimal fraction is at most four times
  the number of digits of its denominator, which bounds the search for it.
\<close>

fun frac_digits :: "nat \<Rightarrow> rat \<Rightarrow> nat \<Rightarrow> nat" where
  "frac_digits 0 q j = j"
| "frac_digits (Suc fuel) q j =
     (if of_int \<lfloor>q * 10 ^ j\<rfloor> = q * 10 ^ j then j else frac_digits fuel q (Suc j))"

definition strip_zeros :: "string \<Rightarrow> string" where
  "strip_zeros s = rev (dropWhile (\<lambda>c. c = CHR ''0'') (rev s))"

definition pos_to_string :: "rat \<Rightarrow> string" where
  "pos_to_string q =
     (let j = frac_digits (4 * length (string_of_nat (nat (snd (quotient_of q))))) q 0;
          D = string_of_nat (nat \<lfloor>q * 10 ^ j\<rfloor>);
          s = strip_zeros D;
          k = int (length s);
          n = int (length D) - int j
      in if k \<le> n \<and> n \<le> 21 then s @ replicate (nat (n - k)) CHR ''0''
         else if 0 < n \<and> n \<le> 21 then take (nat n) s @ ''.'' @ drop (nat n) s
         else if - 6 < n \<and> n \<le> 0 then ''0.'' @ replicate (nat (- n)) CHR ''0'' @ s
         else let e = n - 1;
                  ex = (if e < 0 then ''-'' else ''+'') @ string_of_nat (nat \<bar>e\<bar>)
              in if k = 1 then s @ ''e'' @ ex
                 else take 1 s @ ''.'' @ drop 1 s @ ''e'' @ ex)"

fun num_to_string :: "jsnum \<Rightarrow> string" where
  "num_to_string NaN = ''NaN''"
| "num_to_string PInf = ''Infinity''"
| "num_to_string NInf = ''-Infinity''"
| "num_to_string (Fin q) =
     (if q = 0 then ''0''
      else if q < 0 then CHR ''-'' # pos_to_string (- q)
      else pos_to_string q)"

text \<open>
  \<^verbatim>\<open>Number(s)\<close> for a string: white space is trimmed, the empty string is 0, then
  either a decimal literal (optional sign, \<^verbatim>\<open>Infinity\<close>, digits with an optional
  fraction and exponent) or an unsigned binary, octal or hexadecimal integer literal;
  anything else is NaN.
\<close>

definition all_digits :: "string \<Rightarrow> bool" where
  "all_digits s = (s \<noteq> [] \<and> list_all is_digit s)"

definition hex_val :: "char \<Rightarrow> nat option" where
  "hex_val c =
     (let n = (of_char c :: nat)
      in if 48 \<le> n \<and> n \<le> 57 then Some (n - 48)
         else if 97 \<le> n \<and> n \<le> 102 then Some (n - 87)
         else if 65 \<le> n \<and> n \<le> 70 then Some (n - 55)
         else None)"

fun radix_digits :: "nat \<Rightarrow> string \<Rightarrow> nat \<Rightarrow> nat option" where
  "radix_digits b [] acc = Some acc"
| "radix_digits b (c # cs) acc =
     (case hex_val c of
        None \<Rightarrow> None
      | Some d \<Rightarrow> if d < b then radix_digits b cs (b * acc + d) else None)"

text \<open>\<^verbatim>\<open>0b...\<close>, \<^verbatim>\<open>0o...\<close>, \<^verbatim>\<open>0x...\<close> with at least one digit.\<close>

definition non_decimal :: "string \<Rightarrow> nat option" where
  "non_decimal s =
     (case s of
        c0 # c1 # d # ds \<Rightarrow>
          if c0 \<noteq> CHR ''0'' then None
          else if c1 = CHR ''b'' \<or> c1 = CHR ''B'' then radix_digits 2 (d # ds) 0
          else if c1 = CHR ''o'' \<or> c1 = CHR ''O'' then radix_digits 8 (d # ds) 0
          else if c1 = CHR ''x'' \<or> c1 = CHR ''X'' then radix_digits 16 (d # ds) 0
          else None
      | _ \<Rightarrow> None)"

text \<open>An optionally signed run of decimal digits.\<close>

definition signed_integer :: "string \<Rightarrow> int option" where
  "signed_integer s =
     (case s of
        [] \<Rightarrow> None
      | c # cs \<Rightarrow>
          if c = CHR ''+'' then (if all_digits cs then Some (int (nat_of_digits cs)) else None)
          else if c = CHR ''-'' then (if all_digits cs then Some (- int (nat_of_digits cs)) else None)
          else if all_digits s then Some (int (nat_of_digits s)) else None)"

definition pow10 :: "int \<Rightarrow> rat" where
  "pow10 e = (if e < 0 then 1 / 10 ^ nat (- e) else 10 ^ nat e)"

definition unsigned_decimal :: "string \<Rightarrow> rat option" where
  "unsigned_decimal s =
     (let ip = takeWhile is_digit s;
          r1 = dropWhile is_digit s;
          has_dot = (r1 \<noteq> [] \<and> hd r1 = CHR ''.'');
          fp = (if has_dot then takeWhile is_digit (tl r1) else []);
          r2 = (if has_dot then dropWhile is_digit (tl r1) else r1);
          mant = of_nat (nat_of_digits ip) + of_nat (nat_of_digits fp) / 10 ^ length fp
      in if ip = [] \<and> fp = [] then None
         else if r2 = [] then Some mant
         else if hd r2 = CHR ''e'' \<or> hd r2 = CHR ''E'' then
           (case signed_integer (tl r2) of
              None \<Rightarrow> None
            | Some e \<Rightarrow> Some (mant * pow10 e))
         else None)"

definition string_to_number :: "string \<Rightarrow> jsnum" where
  "string_to_number str =
     (let t = trim str
      in if t = [] then Fin 0
         else case non_decimal t of
           Some n \<Rightarrow> Fin (of_nat n)
         | None \<Rightarrow>
             let neg = (hd t = CHR ''-'');
                 u = (if hd t = CHR ''+'' \<or> hd t = CHR ''-'' then tl t else t)
             in if u = ''Infinity'' then (if neg then NInf else PInf)
                else case unsigned_decimal u of
                  None \<Rightarrow> NaN
                | Some q \<Rightarrow> Fin (if neg then - q else q))"

text \<open>
  \<^verbatim>\<open>BigInt(s)\<close> for a string: trimmed; empty is 0; an optionally signed decimal integer
  or an unsigned binary, octal or hexadecimal literal; anything else raises (None).
\<close>

definition string_to_bigint :: "string \<Rightarrow> int option" where
  "string_to_bigint str =
     (let t = trim str
      in if t = [] then Some 0
         else case non_decimal t of
           Some n \<Rightarrow> Some (int n)
         | None \<Rightarrow> signed_integer t)"

subsection \<open>Conversions of values\<close>

fun join_comma :: "string list \<Rightarrow> string" where
  "join_comma [] = []"
| "join_comma [s] = s"
| "join_comma (s # t # ss) = s @ '','' @ join_comma (t # ss)"

text \<open>\<^verbatim>\<open>String(value)\<close>; an array is the join of its elements, null and undefined elements empty.\<close>

fun js_String :: "jsval \<Rightarrow> string" where
  "js_String JUndefined = ''undefined''"
| "js_String JNull = ''null''"
| "js_String (JBool b) = (if b then ''true'' else ''false'')"
| "js_String (JNum n) = num_to_string n"
| "js_String (JBigInt i) = string_of_int i"
| "js_String (JStr s) = s"
| "js_String (JFile _ _) = ''[object File]''"
| "js_String (JInst _) = ''[object Object]''"
| "js_String (JError name msg) =
     (if name = [] then msg else if msg = [] then name else name @ '': '' @ msg)"
| "js_String (JArr xs ps) = join_comma (map (\<lambda>x. if nullish x then [] else js_String x) xs)"
| "js_String (JObj _) = ''[object Object]''"

text \<open>\<^verbatim>\<open>Number(value)\<close>; an object or array is converted through its string.\<close>

fun to_Number :: "jsval \<Rightarrow> jsnum" where
  "to_Number JUndefined = NaN"
| "to_Number JNull = Fin 0"
| "to_Number (JBool b) = (if b then Fin 1 else Fin 0)"
| "to_Number (JNum n) = n"
| "to_Number (JBigInt i) = Fin (of_int i)"
| "to_Number (JStr s) = string_to_number s"
| "to_Number v = string_to_number (js_String v)"

text \<open>\<^verbatim>\<open>BigInt(value)\<close>; None where the conversion raises.\<close>

fun to_BigInt :: "jsval \<Rightarrow> int option" where
  "to_BigInt JUndefined = None"
| "to_BigInt JNull = None"
| "to_BigInt (JBool b) = Some (if b then 1 else 0)"
| "to_BigInt (JNum (Fin q)) = (if of_int \<lfloor>q\<rfloor> = q then Some \<lfloor>q\<rfloor> else None)"
| "to_BigInt (JNum _) = None"
| "to_BigInt (JBigInt i) = Some i"
| "to_BigInt (JStr s) = string_to_bigint s"
| "to_BigInt v = string_to_bigint (js_String v)"


section \<open>Property access\<close>

text \<open>A property key is a string or, for an array element, a number (\<^verbatim>\<open>key: string | number\<close>).\<close>

datatype pkey = KStr string | KIdx nat

definition key_string :: "pkey \<Rightarrow> string" where
  "key_string k = (case k of KStr s \<Rightarrow> s | KIdx i \<Rightarrow> string_of_nat i)"

text \<open>A string names an array element when it is a canonical index below \<open>2^32 - 1\<close>.\<close>

definition array_index :: "string \<Rightarrow> nat option" where
  "array_index s =
     (if all_digits s \<and> (s = ''0'' \<or> hd s \<noteq> CHR ''0'') \<and> int (nat_of_digits s) < 4294967295
      then Some (nat_of_digits s) else None)"

fun upd :: "string \<Rightarrow> 'v \<Rightarrow> (string \<times> 'v) list \<Rightarrow> (string \<times> 'v) list" where
  "upd k v [] = [(k, v)]"
| "upd k v ((k', v') # kvs) = (if k' = k then (k, v) # kvs else (k', v') # upd k v kvs)"

definition lookup :: "(string \<times> jsval) list \<Rightarrow> string \<Rightarrow> jsval" where
  "lookup kvs k = (case map_of kvs k of Some v \<Rightarrow> v | None \<Rightarrow> JUndefined)"

definition elem :: "jsval list \<Rightarrow> nat \<Rightarrow> jsval" where
  "elem xs i = (if i < length xs then xs ! i else JUndefined)"

text \<open>\<^verbatim>\<open>xs[i] = v\<close>: writing past the end leaves holes, which read as undefined.\<close>

definition set_elem :: "jsval list \<Rightarrow> nat \<Rightarrow> jsval \<Rightarrow> jsval list" where
  "set_elem xs i v =
     (if i < length xs then xs[i := v]
      else xs @ replicate (i - length xs) JUndefined @ [v])"

text \<open>
  \<^verbatim>\<open>obj[key]\<close> on the own properties of an object or array, the only values whose
  properties the code reads; for any other value the model gives undefined.
\<close>

fun js_get :: "jsval \<Rightarrow> pkey \<Rightarrow> jsval" where
  "js_get (JObj kvs) k = lookup kvs (key_string k)"
| "js_get (JArr xs ps) (KIdx i) = elem xs i"
| "js_get (JArr xs ps) (KStr s) =
     (case array_index s of Some i \<Rightarrow> elem xs i | None \<Rightarrow> lookup ps s)"
| "js_get _ k = JUndefined"

text \<open>
  \<^verbatim>\<open>obj[key] = v\<close>, returning the updated container. The code only writes to
  objects and arrays that it has created; any other value is returned as it is.
\<close>

fun js_set :: "jsval \<Rightarrow> pkey \<Rightarrow> jsval \<Rightarrow> jsval" where
  "js_set (JObj kvs) k v = JObj (upd (key_string k) v kvs)"
| "js_set (JArr xs ps) (KIdx i) v = JArr (set_elem xs i v) ps"
| "js_set (JArr xs ps) (KStr s) v =
     (case array_index s of
        Some i \<Rightarrow> JArr (set_elem xs i v) ps
      | None \<Rightarrow> JArr xs (upd s v ps))"
| "js_set t k v = t"

section \<open>The helper module: errors and the path navigator\<close>

fun isObject :: "jsval \<Rightarrow> bool" where
  "isObject (JObj _) = True"
| "isObject _ = False"

fun isArray :: "jsval \<Rightarrow> bool" where
  "isArray (JArr _ _) = True"
| "isArray _ = False"

text \<open>The elements of an array value.\<close>

fun array_elems :: "jsval \<Rightarrow> jsval list" where
  "array_elems (JArr xs ps) = xs"
| "array_elems _ = []"

text \<open>primitives to string\<close>

definition stringify :: "jsval \<Rightarrow> string" where
  "stringify v = (if nullish v \<or> typeof v = ''object'' then [] else js_String v)"

text \<open>The error map: path to \<^verbatim>\<open>{ value, errors }\<close>, in insertion order.\<close>

record error_entry =
  entry_value :: string
  entry_errors :: "string list"

type_synonym errors = "(string \<times> error_entry) list"

definition addError :: "errors \<Rightarrow> string \<Rightarrow> string \<Rightarrow> jsval \<Rightarrow> errors" where
  "addError errs path error v =
     (case map_of errs path of
        None \<Rightarrow> errs @ [(path, \<lparr>entry_value = stringify v, entry_errors = [error]\<rparr>)]
      | Some e \<Rightarrow> upd path (e\<lparr>entry_errors := entry_errors e @ [error]\<rparr>) errs)"

text \<open>
  One match of \<^verbatim>\<open>\[\s*(\d+)\s*\]\<close> at the start of a string: the digits and the
  rest after the match. The three classes are disjoint, so the greedy match is the only one.
\<close>

definition match_index :: "string \<Rightarrow> (string \<times> string) option" where
  "match_index s =
     (case s of
        [] \<Rightarrow> None
      | c # r \<Rightarrow>
          if c \<noteq> CHR ''['' then None
          else let r1 = dropWhile is_space r;
                   ds = takeWhile is_digit r1;
                   r3 = dropWhile is_space (dropWhile is_digit r1)
               in if ds = [] then None
                  else (case r3 of
                          [] \<Rightarrow> None
                        | c' # rest \<Rightarrow> if c' = CHR '']'' then Some (ds, rest) else None))"

lemma match_index_shorter: "match_index s = Some (ds, rest) \<Longrightarrow> length rest < length s"
proof -
  assume m: "match_index s = Some (ds, rest)"
  then obtain r where s: "s = CHR ''['' # r"
    by (cases s) (auto simp: match_index_def split: if_splits)
  define r3 where "r3 = dropWhile is_space (dropWhile is_digit (dropWhile is_space r))"
  from m s have "r3 = CHR '']'' # rest"
    by (auto simp: match_index_def Let_def r3_def split: if_splits list.splits)
  moreover have "length r3 \<le> length r"
    unfolding r3_def
    by (meson length_dropWhile_le le_trans)
  ultimately show ?thesis using s by simp
qed

text \<open>\<^verbatim>\<open>path.replace(/\[\s*(\d+)\s*\]/g, f)\<close>: every match, left to right, replaced by \<open>f digits\<close>.\<close>

function replace_indices :: "(string \<Rightarrow> string) \<Rightarrow> string \<Rightarrow> string" where
  "replace_indices f s =
     (case match_index s of
        Some (ds, rest) \<Rightarrow> f ds @ replace_indices f rest
      | None \<Rightarrow> (case s of [] \<Rightarrow> [] | c # cs \<Rightarrow> c # replace_indices f cs))"
  by pat_completeness auto
termination
  by (relation "measure (\<lambda>(f, s). length s)") (auto dest: match_index_shorter)

declare replace_indices.simps [simp del]

text \<open>key for translations: \<^verbatim>\<open>foo[1].bar => foo.bar\<close>\<close>

definition getKey :: "string \<Rightarrow> string" where
  "getKey path = replace_indices (\<lambda>ds. []) path"

definition makePath :: "string \<Rightarrow> string \<Rightarrow> string" where
  "makePath currentPath prop =
     (let index = string_to_number prop;
          isArrayIndex = (index \<noteq> NaN);
          key = (if isArrayIndex then ''['' @ num_to_string index @ '']'' else prop);
          dot = (if currentPath = [] \<or> isArrayIndex then [] else ''.'')
      in currentPath @ dot @ key)"

text \<open>
  The proxy target \<^verbatim>\<open>{ path, value }\<close>. The error map it closes over is passed
  explicitly. A property read on the proxy gives one of the terminal values or a child
  proxy; the function returned for \<^verbatim>\<open>push\<close> is represented by its captured target
  and applied by \<open>push\<close>.
\<close>

record navigator =
  nav_path :: string
  nav_value :: jsval

datatype push_arg = Msg string | KeyFn "string \<Rightarrow> string"

datatype nav_result =
    Length nat
  | PushFn navigator
  | Path string
  | Value string
  | Errors "string list"
  | Child navigator

definition proxy_get :: "errors \<Rightarrow> navigator \<Rightarrow> string \<Rightarrow> nav_result" where
  "proxy_get errs target prop =
     (if isArray (nav_value target) \<and> prop = ''length'' then
        Length (length (array_elems (nav_value target)))
      else if prop = ''push'' then PushFn target
      else if prop = ''path'' then Path (nav_path target)
      else if prop = ''value'' then
        Value (stringify
          (if \<not> nullish (nav_value target) then nav_value target
           else case map_of errs (nav_path target) of
                  Some e \<Rightarrow> JStr (entry_value e)
                | None \<Rightarrow> JUndefined))
      else if prop = ''errors'' then
        Errors (case map_of errs (nav_path target) of
                  Some e \<Rightarrow> entry_errors e
                | None \<Rightarrow> [])
      else Child \<lparr>nav_path = makePath (nav_path target) prop,
                  nav_value = (if isArray (nav_value target) \<or> isObject (nav_value target)
                               then js_get (nav_value target) (KStr prop)
                               else JUndefined)\<rparr>)"

text \<open>issues.push\<close>

definition push :: "errors \<Rightarrow> navigator \<Rightarrow> push_arg \<Rightarrow> errors" where
  "push errs target arg =
     (let error = (case arg of KeyFn f \<Rightarrow> f (getKey (nav_path target)) | Msg m \<Rightarrow> m)
      in addError errs (nav_path target) error (nav_value target))"

text \<open>
  Iteration (the property \<^verbatim>\<open>Symbol.iterator\<close>). On an array the iterator reads
  \<^verbatim>\<open>this[i]\<close> for each index below the length. On any other value the symbol
  reaches \<^verbatim>\<open>makePath\<close>, where its conversion to a number raises: \<open>None\<close>.
\<close>

definition nav_items :: "errors \<Rightarrow> navigator \<Rightarrow> nav_result list option" where
  "nav_items errs target =
     (if isArray (nav_value target)
      then Some (map (\<lambda>i. proxy_get errs target (string_of_nat i))
                   [0..<length (array_elems (nav_value target))])
      else None)"

definition proxy :: "jsval \<Rightarrow> navigator" where
  "proxy input = \<lparr>nav_path = [], nav_value = input\<rparr>"

definition createIssues :: "jsval \<Rightarrow> navigator" where
  "createIssues input = proxy input"


text \<open>
  A chain of property reads \<^verbatim>\<open>nav.p1.p2...\<close>: each read is made on the child the
  previous one gave; a read that gives a terminal value ends the chain of navigators.
\<close>

fun navigate :: "errors \<Rightarrow> navigator \<Rightarrow> string list \<Rightarrow> navigator option" where
  "navigate errs nav [] = Some nav"
| "navigate errs nav (p # ps) =
     (case proxy_get errs nav p of
        Child c \<Rightarrow> navigate errs c ps
      | _ \<Rightarrow> None)"


section \<open>The validator module\<close>

subsection \<open>Schema\<close>

datatype prim = PString | PBoolean | PNumber | PBigint | PFile

definition prim_name :: "prim \<Rightarrow> string" where
  "prim_name p =
     (case p of PString \<Rightarrow> ''string'' | PBoolean \<Rightarrow> ''boolean'' | PNumber \<Rightarrow> ''number''
      | PBigint \<Rightarrow> ''bigint'' | PFile \<Rightarrow> ''file'')"

text \<open>
  \<^verbatim>\<open>PropertyType\<close>: a primitive tag, a nested schema, or a one-element array of either.
  A schema is the list of its entries in enumeration order.
\<close>

datatype stype =
    SPrim prim
  | SObj "(string \<times> stype) list"
  | SArrPrim prim
  | SArrObj "(string \<times> stype) list"

text \<open>\<^verbatim>\<open>Property\<close>: \<^verbatim>\<open>{ key, alias?, optional?, type }\<close>.\<close>

datatype ptype =
    TPrim prim
  | TObj "(string \<times> property) list"
  | TArr ptype
and property =
    Property (prop_key: pkey) (prop_alias: "string option") (prop_optional: bool) (prop_type: ptype)

definition endsWith :: "string \<Rightarrow> char \<Rightarrow> bool" where
  "endsWith s c = (s \<noteq> [] \<and> last s = c)"

text \<open>\<^verbatim>\<open>s.replace(c, "")\<close> with a string pattern: the first occurrence only.\<close>

fun remove_first :: "char \<Rightarrow> string \<Rightarrow> string" where
  "remove_first c [] = []"
| "remove_first c (x # xs) = (if x = c then xs else x # remove_first c xs)"

text \<open>\<^verbatim>\<open>s.split(c)\<close>\<close>

fun split_on :: "char \<Rightarrow> string \<Rightarrow> string list" where
  "split_on c [] = [[]]"
| "split_on c (x # xs) =
     (if x = c then [] # split_on c xs
      else (x # hd (split_on c xs)) # tl (split_on c xs))"

text \<open>\<^verbatim>\<open>Object.fromEntries\<close>: a later entry with the same key replaces the value.\<close>

definition fromEntries :: "(string \<times> 'v) list \<Rightarrow> (string \<times> 'v) list" where
  "fromEntries entries = foldl (\<lambda>acc (k, v). upd k v acc) [] entries"

text \<open>The body of the callback that \<open>parseSchema\<close> maps over the entries, given the parsed type.\<close>

definition parse_entry :: "string \<Rightarrow> ptype \<Rightarrow> string \<times> property" where
  "parse_entry key ty =
     (let optional = endsWith key CHR ''?'';
          parts = split_on CHR '':'' (remove_first CHR ''?'' key);
          name = hd parts;
          alias = (if 1 < length parts then Some (parts ! 1) else None)
      in (name, Property (KStr name) alias optional ty))"

fun parse_type :: "stype \<Rightarrow> ptype" where
  "parse_type (SPrim p) = TPrim p"
| "parse_type (SObj schema) =
     TObj (fromEntries (map (\<lambda>(key, ty). parse_entry key (parse_type ty)) schema))"
| "parse_type (SArrPrim p) = TArr (TPrim p)"
| "parse_type (SArrObj schema) =
     TArr (TObj (fromEntries (map (\<lambda>(key, ty). parse_entry key (parse_type ty)) schema)))"

definition parseSchema :: "(string \<times> stype) list \<Rightarrow> (string \<times> property) list" where
  "parseSchema schema = fromEntries (map (\<lambda>(key, ty). parse_entry key (parse_type ty)) schema)"

subsection \<open>Coercion\<close>

datatype expected = EArray | EObject | EPrim prim

definition expected_name :: "expected \<Rightarrow> string" where
  "expected_name e = (case e of EArray \<Rightarrow> ''array'' | EObject \<Rightarrow> ''object'' | EPrim p \<Rightarrow> prim_name p)"

text \<open>\<^verbatim>\<open>TRUE.includes(input)\<close> and \<^verbatim>\<open>FALSE.includes(input)\<close>\<close>

definition is_TRUE :: "jsval \<Rightarrow> bool" where
  "is_TRUE v = (v = JStr ''true'' \<or> v = JStr ''1'' \<or> v = JNum (Fin 1))"

definition is_FALSE :: "jsval \<Rightarrow> bool" where
  "is_FALSE v = (v = JStr ''false'' \<or> v = JStr ''0'' \<or> v = JNum (Fin 0))"

text \<open>if expecting primitive coerce array with single element\<close>

fun unwrap_single :: "jsval \<Rightarrow> jsval" where
  "unwrap_single (JArr [x] ps) = x"
| "unwrap_single v = v"

fun is_string :: "jsval \<Rightarrow> bool" where
  "is_string (JStr _) = True"
| "is_string _ = False"

fun is_boolean :: "jsval \<Rightarrow> bool" where
  "is_boolean (JBool _) = True"
| "is_boolean _ = False"

fun is_number :: "jsval \<Rightarrow> bool" where
  "is_number (JNum _) = True"
| "is_number _ = False"

fun is_bigint :: "jsval \<Rightarrow> bool" where
  "is_bigint (JBigInt _) = True"
| "is_bigint _ = False"

fun is_File :: "jsval \<Rightarrow> bool" where
  "is_File (JFile _ _) = True"
| "is_File _ = False"

text \<open>The result \<open>JUndefined\<close> is the failure sentinel.\<close>

fun coerce :: "jsval \<Rightarrow> expected \<Rightarrow> jsval" where
  "coerce input EObject = (if isObject input then input else JUndefined)"
| "coerce input EArray = (if isArray input then input else JArr [input] [])"
| "coerce input0 (EPrim ty) =
     (let input = unwrap_single input0
      in case ty of
           PString \<Rightarrow> (if is_string input then input else JStr (js_String input))
         | PBoolean \<Rightarrow>
             (if is_boolean input then input
              else if is_TRUE input then JBool True
              else if is_FALSE input then JBool False
              else JUndefined)
         | PNumber \<Rightarrow>
             (if is_number input then input
              else let v = to_Number input in if v = NaN then JUndefined else JNum v)
         | PBigint \<Rightarrow>
             (if is_bigint input then input
              else case to_BigInt input of Some i \<Rightarrow> JBigInt i | None \<Rightarrow> JUndefined)
         | PFile \<Rightarrow> (if is_File input then input else JUndefined))"

fun defaultValue :: "property \<Rightarrow> jsval" where
  "defaultValue (Property key alias optional (TPrim PString)) = JStr []"
| "defaultValue (Property key alias optional (TPrim PBoolean)) = JBool False"
| "defaultValue (Property key alias optional (TPrim PNumber)) = JNum (Fin 0)"
| "defaultValue (Property key alias optional (TPrim PFile)) = JFile [] []"
| "defaultValue (Property key alias optional (TPrim PBigint)) = JBigInt 0"
| "defaultValue (Property key alias optional (TArr ty)) = JArr [] []"
| "defaultValue (Property key alias optional (TObj props)) =
     JObj (fromEntries (map (\<lambda>(k, childProp). (k, defaultValue childProp)) props))"

subsection \<open>Error messages\<close>

definition to_upper :: "char \<Rightarrow> char" where
  "to_upper c = (let n = (of_char c :: nat) in if 97 \<le> n \<and> n \<le> 122 then char_of (n - 32) else c)"

definition is_lower :: "char \<Rightarrow> bool" where
  "is_lower c = (97 \<le> (of_char c :: nat) \<and> (of_char c :: nat) \<le> 122)"

definition is_upper :: "char \<Rightarrow> bool" where
  "is_upper c = (65 \<le> (of_char c :: nat) \<and> (of_char c :: nat) \<le> 90)"

text \<open>\<^verbatim>\<open>.replace(/([a-z])([A-Z])/g, ([l, u]) => `${l} ${u}`)\<close>\<close>

fun camel_spaces :: "string \<Rightarrow> string" where
  "camel_spaces (l # u # rest) =
     (if is_lower l \<and> is_upper u then l # CHR '' '' # u # camel_spaces rest
      else l # camel_spaces (u # rest))"
| "camel_spaces s = s"

definition getDisplayName :: "string \<Rightarrow> string" where
  "getDisplayName path =
     (let name = last (split_on CHR ''.'' path);
          first = map to_upper (take 1 name);
          rest = camel_spaces (drop 1 name)
      in first @ rest)"

text \<open>
  \<^verbatim>\<open>BasicError\<close>, the descriptor given to the override, and the override
  \<^verbatim>\<open>(key, error) => string | undefined\<close>, a function that returns.
\<close>

datatype basic_error =
    ErrException jsval
  | ErrRequired string
  | ErrType string string
  | ErrArray jsnum jsval

type_synonym override = "string \<Rightarrow> basic_error \<Rightarrow> string option"

datatype err_code = CRequired | CType | CArray

text \<open>\<^verbatim>\<open>override?.(key, e) ?? dflt\<close>\<close>

definition or_default :: "override option \<Rightarrow> string \<Rightarrow> basic_error \<Rightarrow> string \<Rightarrow> string" where
  "or_default ovr key e dflt =
     (case ovr of
        None \<Rightarrow> dflt
      | Some f \<Rightarrow> (case f key e of None \<Rightarrow> dflt | Some m \<Rightarrow> m))"

text \<open>\<^verbatim>\<open>x.length\<close> as used on the received array.\<close>

fun js_length :: "jsval \<Rightarrow> jsval" where
  "js_length (JArr xs ps) = JNum (Fin (of_nat (length xs)))"
| "js_length (JStr s) = JNum (Fin (of_nat (length s)))"
| "js_length _ = JUndefined"

text \<open>
  \<open>getErrorMessage\<close> for the codes \<^verbatim>\<open>required\<close>, \<^verbatim>\<open>type\<close> and \<^verbatim>\<open>array\<close>. The
  parameter \<open>expected\<close> is the optional last argument, \<open>JUndefined\<close> when not given.
\<close>

definition getErrorMessage ::
  "string \<Rightarrow> err_code \<Rightarrow> jsval \<Rightarrow> override option \<Rightarrow> jsval \<Rightarrow> string" where
  "getErrorMessage path code inputOrException ovr expected =
     (let key = getKey path
      in case code of
           CRequired \<Rightarrow>
             (let name = getDisplayName key
              in or_default ovr key (ErrRequired (typeof inputOrException)) (name @ '' is required''))
         | CType \<Rightarrow>
             (let received = (if stringify inputOrException \<noteq> [] then stringify inputOrException
                              else typeof inputOrException)
              in or_default ovr key (ErrType (js_String expected) received)
                   (''Expected '' @ [CHR 0x27] @ js_String expected @ [CHR 0x27]
                    @ '', received '' @ [CHR 0x27] @ received @ [CHR 0x27]))
         | CArray \<Rightarrow>
             (let limit = to_Number expected;
                  len = js_length inputOrException
              in or_default ovr key (ErrArray limit len)
                   (''Array length '' @ js_String len @ '' is greater than limit ''
                    @ num_to_string limit)))"

text \<open>\<^verbatim>\<open>error.message\<close>: reading a property of null or undefined raises a TypeError.\<close>

fun error_message :: "jsval \<Rightarrow> jsval option" where
  "error_message JUndefined = None"
| "error_message JNull = None"
| "error_message (JError name msg) = Some (JStr msg)"
| "error_message (JObj kvs) = Some (lookup kvs ''message'')"
| "error_message (JArr xs ps) = Some (lookup ps ''message'')"
| "error_message _ = Some JUndefined"

definition TypeError_null_read :: jsval where
  "TypeError_null_read = JError ''TypeError'' ''Cannot read properties of null or undefined''"

text \<open>
  \<open>getErrorMessage\<close> for the code \<^verbatim>\<open>exception\<close>, its last branch and the only one that
  can raise: \<open>Inl\<close> is the error raised, \<open>Inr\<close> the message. The default message is
  only built when the override gives none.
\<close>

definition getExceptionMessage :: "string \<Rightarrow> jsval \<Rightarrow> override option \<Rightarrow> jsval + string" where
  "getExceptionMessage path error ovr =
     (let key = getKey path;
          overridden = (case ovr of None \<Rightarrow> None | Some f \<Rightarrow> f key (ErrException error))
      in case overridden of
           Some m \<Rightarrow> Inr m
         | None \<Rightarrow>
             (case error_message error of
                None \<Rightarrow> Inl TypeError_null_read
              | Some m \<Rightarrow> Inr (''Exception: '' @ js_String m)))"


subsection \<open>The recursive validator\<close>

record options =
  arrayLimit :: "jsnum option"
  errorMessage :: "override option"

definition DEFAULT_ARRAY_LIMIT :: jsnum where
  "DEFAULT_ARRAY_LIMIT = Fin 50"

text \<open>\<^verbatim>\<open>length > limit\<close> for an array length and a number.\<close>

fun exceeds :: "nat \<Rightarrow> jsnum \<Rightarrow> bool" where
  "exceeds n NaN = False"
| "exceeds n PInf = False"
| "exceeds n NInf = True"
| "exceeds n (Fin q) = (q < of_nat n)"

fun isArrayT :: "ptype \<Rightarrow> bool" where
  "isArrayT (TArr _) = True"
| "isArrayT _ = False"

text \<open>\<^verbatim>\<open>isArray(type) ? "array" : isObject(type) ? "object" : type\<close>\<close>

fun expected_of :: "ptype \<Rightarrow> expected" where
  "expected_of (TArr _) = EArray"
| "expected_of (TObj _) = EObject"
| "expected_of (TPrim p) = EPrim p"

text \<open>
  The three structures that \<open>validate\<close> mutates, \<^verbatim>\<open>target\<close>, \<^verbatim>\<open>safeTarget\<close> and
  \<^verbatim>\<open>errors\<close>, are passed in and returned. A container that the code creates, stores
  under \<^verbatim>\<open>target[key]\<close> and then fills through the recursive calls is here filled
  first and stored afterwards; nothing reads it in between.
\<close>

type_synonym vstate = "jsval \<times> jsval \<times> errors"

definition itemPath :: "string \<Rightarrow> nat \<Rightarrow> string" where
  "itemPath path i = path @ ''['' @ string_of_nat i @ '']''"

definition childPath :: "string \<Rightarrow> string \<Rightarrow> string" where
  "childPath path childKey = (if path = [] then childKey else path @ ''.'' @ childKey)"

lemma size_child_prop:
  "(a, b) \<in> set props \<Longrightarrow> size (b :: property) < Suc (size_list (size_prod (\<lambda>x. 0) size) props)"
  by (induction props) auto

function validate :: "string \<Rightarrow> property \<Rightarrow> jsval \<Rightarrow> options \<Rightarrow> vstate \<Rightarrow> vstate" where
  "validate path (Property key alias optional ty) source opts (target, safeTarget, errs) =
     (let isRoot = (path = []);
          input = (if isRoot then source
                   else js_get source (case alias of Some a \<Rightarrow> KStr a | None \<Rightarrow> key))
      in if nullish input then
           (let errs1 = (if \<not> optional
                         then addError errs path
                                (getErrorMessage path CRequired input (errorMessage opts) JUndefined) input
                         else errs)
            in if \<not> isRoot
               then (js_set target key (if isArrayT ty then JArr [] [] else input),
                     js_set safeTarget key (defaultValue (Property key alias optional ty)),
                     errs1)
               else (target, safeTarget, errs1))
         else if nullish (coerce input (expected_of ty)) then
           (let errs1 = addError errs path
                          (getErrorMessage path CType input (errorMessage opts)
                             (JStr (expected_name (expected_of ty)))) input
            in if \<not> isRoot
               then (js_set target key (coerce input (expected_of ty)),
                     js_set safeTarget key (defaultValue (Property key alias optional ty)),
                     errs1)
               else (target, safeTarget, errs1))
         else
           (case ty of
              TPrim p \<Rightarrow>
                (js_set target key (coerce input (expected_of ty)),
                 js_set safeTarget key (defaultValue (Property key alias optional ty)),
                 errs)
            | TArr itemT \<Rightarrow>
                (let sourceArr = coerce input (expected_of ty);
                     limit = (case arrayLimit opts of Some l \<Rightarrow> l | None \<Rightarrow> DEFAULT_ARRAY_LIMIT)
                 in if exceeds (length (array_elems sourceArr)) limit then
                      (js_set target key (JArr [] []),
                       js_set safeTarget key (JArr [] []),
                       addError errs path
                         (getErrorMessage path CArray sourceArr (errorMessage opts) (JNum limit))
                         JUndefined)
                    else
                      (case fold (\<lambda>i st. validate (itemPath path i)
                                            (Property (KIdx i) None False itemT) sourceArr opts st)
                              [0..<length (array_elems sourceArr)]
                              (JArr [] [], JArr [] [], errs) of
                         (targetArr, safeTargetArr, errs1) \<Rightarrow>
                           (js_set target key targetArr, js_set safeTarget key safeTargetArr, errs1)))
            | TObj props \<Rightarrow>
                (case fold (\<lambda>(childKey, childProp) st.
                              validate (childPath path childKey) childProp
                                (coerce input (expected_of ty)) opts st)
                        props
                        (if isRoot then (target, safeTarget, errs) else (JObj [], JObj [], errs)) of
                   (targetObj, safeTargetObj, errs1) \<Rightarrow>
                     if isRoot then (targetObj, safeTargetObj, errs1)
                     else (js_set target key targetObj, js_set safeTarget key safeTargetObj, errs1))))"
  by pat_completeness auto
termination
  by (relation "measure (\<lambda>(path, prop, source, opts, st). size prop)")
     (auto dest!: size_child_prop)


declare validate.simps [simp del]

subsection \<open>Input normalisation\<close>

text \<open>
  Modelled from the spec: the numeric-segment detection of the package \<^verbatim>\<open>dset\<close>,
  which is not part of the sources. In the package it is
  \<^verbatim>\<open>key*0 !== 0 || key.includes('.')\<close>: the next key does not look like a number.
\<close>

definition not_numeric :: "string \<Rightarrow> bool" where
  "not_numeric k =
     ((case string_to_number k of Fin q \<Rightarrow> False | _ \<Rightarrow> True) \<or> CHR ''.'' \<in> set k)"

text \<open>
  Modelled from the spec: the function \<^verbatim>\<open>dset\<close> of the imported package of that name
  is not part of the sources. The specification (4.2) has the value sequence assigned at
  the dotted path into a fresh object, "building intermediate objects/arrays as needed by
  numeric-segment detection". The definition does this as the package (version 3) does:
  \<^verbatim>\<open>
  export function dset(obj, keys, val) {
    keys.split && (keys=keys.split('.'));
    var i=0, l=keys.length, t=obj, x, k;
    while (i < l) {
      k = ''+keys[i++];
      if (k === '__proto__' || k === 'constructor' || k === 'prototype') break;
      t = t[k] = (i === l) ? val
        : (typeof(x=t[k])===typeof(keys)) ? x
        : (keys[i]*0 !== 0 || !!~(''+keys[i]).indexOf('.')) ? {} : [];
    }
  }
  \<close>
  The walk down the containers is a recursion that returns the updated container. A
  property written onto a File is not represented, and neither is the failure of the
  package on an existing null, which no form source produces.
\<close>

fun dset_keys :: "jsval \<Rightarrow> string list \<Rightarrow> jsval \<Rightarrow> jsval" where
  "dset_keys t [] val = t"
| "dset_keys t (k # ks) val =
     (if k = ''__proto__'' \<or> k = ''constructor'' \<or> k = ''prototype'' then t
      else if ks = [] then js_set t (KStr k) val
      else let x = js_get t (KStr k);
               child = (if typeof x = ''object'' then x
                        else if not_numeric (hd ks) then JObj []
                        else JArr [] [])
           in js_set t (KStr k) (dset_keys child ks val))"

text \<open>Modelled from the spec: the entry point of the package, on a dotted path.\<close>

definition dset :: "jsval \<Rightarrow> string \<Rightarrow> jsval \<Rightarrow> jsval" where
  "dset obj keys val = dset_keys obj (split_on CHR ''.'' keys) val"

text \<open>
  The input of a validator: a plain value, or a FormData or URLSearchParams, given by its
  entries in order (the values of a form are strings and files). Of such a source,
  \<^verbatim>\<open>keys()\<close> gives the key of every entry, in order and with repetitions, and
  \<^verbatim>\<open>getAll(key)\<close> the values of the entries with that key, in order.
\<close>

datatype raw_input = Plain jsval | Flat "(string \<times> jsval) list"

text \<open>\<^verbatim>\<open>input.getAll(key)\<close>\<close>

definition getAll :: "(string \<times> jsval) list \<Rightarrow> string \<Rightarrow> jsval" where
  "getAll entries key = JArr (map snd (filter (\<lambda>(k, v). k = key) entries)) []"

definition normalizeInput :: "raw_input \<Rightarrow> jsval" where
  "normalizeInput input =
     (case input of
        Flat entries \<Rightarrow>
          fold (\<lambda>key source.
                  dset source (replace_indices (\<lambda>ds. ''.'' @ ds) key) (getAll entries key))
               (map fst entries) (JObj [])
      | Plain v \<Rightarrow> v)"

subsection \<open>The validator\<close>

text \<open>\<^verbatim>\<open>input?.constructor?.name ?? typeof input\<close>\<close>

fun constructor_name :: "jsval \<Rightarrow> string" where
  "constructor_name JUndefined = ''undefined''"
| "constructor_name JNull = ''object''"
| "constructor_name (JBool _) = ''Boolean''"
| "constructor_name (JNum _) = ''Number''"
| "constructor_name (JBigInt _) = ''BigInt''"
| "constructor_name (JStr _) = ''String''"
| "constructor_name (JFile _ _) = ''File''"
| "constructor_name (JInst c) = c"
| "constructor_name (JError name _) = name"
| "constructor_name (JArr _ _) = ''Array''"
| "constructor_name (JObj _) = ''Object''"

definition isValidInput :: "jsval \<Rightarrow> errors \<Rightarrow> options \<Rightarrow> bool \<times> errors" where
  "isValidInput input errs opts =
     (if isObject input then (True, errs)
      else let ty = (if isArray input then ''array''
                     else if input = JNull then ''null''
                     else constructor_name input);
               msg = getErrorMessage [] CType (JStr ty) (errorMessage opts) (JStr ''object'')
           in (False, addError errs [] msg JUndefined))"

record validation_result =
  success :: bool
  data :: jsval
  errors :: errors

text \<open>
  The custom callback \<^verbatim>\<open>callback(safeData, issues, ctx)\<close>. Its only access to the
  error map is through the navigator, so it is given the map and returns it as it left
  it, with the value it threw, if it threw. Every function of that type is admitted.
\<close>

type_synonym callback = "jsval \<Rightarrow> navigator \<Rightarrow> options \<Rightarrow> errors \<Rightarrow> errors \<times> jsval option"

definition make_result :: "jsval \<Rightarrow> errors \<Rightarrow> validation_result" where
  "make_result d errs = \<lparr>success = (length (map fst errs) = 0), data = d, errors = errs\<rparr>"

text \<open>\<^verbatim>\<open>ctx ??= {}\<close>\<close>

definition or_empty :: "options option \<Rightarrow> options" where
  "or_empty ctx = (case ctx of None \<Rightarrow> \<lparr>arrayLimit = None, errorMessage = None\<rparr> | Some c \<Rightarrow> c)"

text \<open>
  \<open>Inl\<close> is an exception that leaves the validator, \<open>Inr\<close> the result it returns.
\<close>

definition schemaValidator ::
  "(string \<times> stype) list \<Rightarrow> callback option \<Rightarrow> raw_input \<Rightarrow> options option
     \<Rightarrow> jsval + validation_result" where
  "schemaValidator schema cb input0 ctx0 =
     (let ty = parseSchema schema;
          ctx = or_empty ctx0;
          input = normalizeInput input0;
          root = Property (KStr []) None False (TObj ty)
      in case isValidInput input [] ctx of
           (False, errs1) \<Rightarrow> Inr (make_result (JObj []) errs1)
         | (True, errs1) \<Rightarrow>
             (case validate [] root input ctx (JObj [], JObj [], errs1) of
                (d, safeData, errs2) \<Rightarrow>
                  (case cb of
                     None \<Rightarrow> Inr (make_result d errs2)
                   | Some callback \<Rightarrow>
                       (case callback safeData (createIssues input) ctx errs2 of
                          (errs3, None) \<Rightarrow> Inr (make_result d errs3)
                        | (errs3, Some error) \<Rightarrow>
                            (case getExceptionMessage [] error (errorMessage ctx) of
                               Inl e \<Rightarrow> Inl e
                             | Inr message \<Rightarrow>
                                 Inr (make_result d (addError errs3 [] message JUndefined)))))))"

definition createValidator ::
  "(string \<times> stype) list \<Rightarrow> callback option \<Rightarrow> raw_input \<Rightarrow> options option
     \<Rightarrow> jsval + validation_result" where
  "createValidator schema cb = schemaValidator schema cb"


section \<open>Notions used in the statements\<close>



text \<open>
  The property names that the proxy answers itself: \<^verbatim>\<open>push\<close>, \<^verbatim>\<open>path\<close>,
  \<^verbatim>\<open>value\<close>, \<^verbatim>\<open>errors\<close>, and \<^verbatim>\<open>length\<close> when the raw value is an array.
\<close>

definition terminal :: "jsval \<Rightarrow> string \<Rightarrow> bool" where
  "terminal v prop =
     (prop = ''push'' \<or> prop = ''path'' \<or> prop = ''value'' \<or> prop = ''errors''
      \<or> (isArray v \<and> prop = ''length''))"

text \<open>The raw value of the child reached by a property read.\<close>

definition child_value :: "jsval \<Rightarrow> string \<Rightarrow> jsval" where
  "child_value v prop = (if isArray v \<or> isObject v then js_get v (KStr prop) else JUndefined)"

text \<open>A chain of property names none of which is answered by the proxy itself on the way.\<close>

fun navigable :: "jsval \<Rightarrow> string list \<Rightarrow> bool" where
  "navigable v [] = True"
| "navigable v (p # ps) = (\<not> terminal v p \<and> navigable (child_value v p) ps)"

text \<open>The error map of a validator state.\<close>

definition errs_of :: "vstate \<Rightarrow> errors" where
  "errs_of st = snd (snd st)"

text \<open>
  The raw input that \<open>validate\<close> resolves for a field: the whole source at the root,
  \<^verbatim>\<open>source[alias ?? key]\<close> otherwise.
\<close>

definition resolved :: "string \<Rightarrow> jsval \<Rightarrow> string option \<Rightarrow> pkey \<Rightarrow> jsval" where
  "resolved path source als key =
     (if path = [] then source
      else js_get source (case als of Some a \<Rightarrow> KStr a | None \<Rightarrow> key))"

section \<open>Properties of the error map\<close>

lemma map_of_upd: "map_of (upd k v kvs) = (map_of kvs)(k \<mapsto> v)"
  by (induction kvs) (auto simp: fun_eq_iff)

lemma map_of_addError:
  "map_of (addError errs path e v) =
     (map_of errs)(path \<mapsto>
        (case map_of errs path of
           None \<Rightarrow> \<lparr>entry_value = stringify v, entry_errors = [e]\<rparr>
         | Some old \<Rightarrow> old\<lparr>entry_errors := entry_errors old @ [e]\<rparr>))"
  by (auto simp: addError_def map_of_upd fun_eq_iff map_add_def split: option.splits)





section \<open>Properties of the path navigator\<close>

lemma num_object: "string_to_number ''object'' = NaN"
  by code_simp

lemma num_list: "string_to_number ''list'' = NaN"
  by code_simp

lemma num_field: "string_to_number ''field'' = NaN"
  by code_simp

lemma num_one: "string_to_number ''1'' = Fin 1"
  by code_simp

lemma str_one: "pos_to_string 1 = ''1''"
  by code_simp

lemma key_object_list_field: "getKey ''object.list[1].field'' = ''object.list.field''"
  by code_simp

lemma proxy_get_child:
  "\<not> terminal (nav_value nav) prop \<Longrightarrow>
   proxy_get errs nav prop =
     Child \<lparr>nav_path = makePath (nav_path nav) prop, nav_value = child_value (nav_value nav) prop\<rparr>"
  by (auto simp: proxy_get_def terminal_def child_value_def)

lemma proxy_get_terminal:
  "terminal (nav_value nav) prop \<Longrightarrow> proxy_get errs nav prop \<noteq> Child c"
  unfolding terminal_def proxy_get_def
  by (elim disjE conjE) simp_all

lemma navigate_navigable:
  "navigable (nav_value nav) props \<Longrightarrow>
   navigate errs nav props =
     Some \<lparr>nav_path = foldl makePath (nav_path nav) props,
           nav_value = foldl child_value (nav_value nav) props\<rparr>"
proof (induction props arbitrary: nav)
  case Nil
  show ?case by simp
next
  case (Cons p ps)
  then show ?case by (simp add: proxy_get_child)
qed

lemma navigate_not_navigable:
  "\<not> navigable (nav_value nav) props \<Longrightarrow> navigate errs nav props = None"
proof (induction props arbitrary: nav)
  case Nil
  then show ?case by simp
next
  case (Cons p ps)
  show ?case
  proof (cases "terminal (nav_value nav) p")
    case True
    from proxy_get_terminal [OF this, of errs] show ?thesis
      by (cases "proxy_get errs nav p") auto
  next
    case False
    with Cons show ?thesis by (simp add: proxy_get_child)
  qed
qed





text \<open>
  C8. The chain \<^verbatim>\<open>issues.object.list[1].field\<close> reaches, for every input and error
  map, a navigator whose path is exactly \<^verbatim>\<open>object.list[1].field\<close>. A push there
  changes the error map at that key and nowhere else: it creates the entry with the
  message, or appends the message to the entry. A push of a function is the push of the
  function's result on the index-stripped key \<^verbatim>\<open>object.list.field\<close>.
\<close>

theorem issues_path_and_key:
  "\<exists>nav. navigate errs (createIssues input) [''object'', ''list'', ''1'', ''field''] = Some nav
     \<and> nav_path nav = ''object.list[1].field''
     \<and> map_of (push errs nav (Msg m)) =
         (map_of errs)(''object.list[1].field'' \<mapsto>
            (case map_of errs ''object.list[1].field'' of
               None \<Rightarrow> \<lparr>entry_value = stringify (nav_value nav), entry_errors = [m]\<rparr>
             | Some old \<Rightarrow> old\<lparr>entry_errors := entry_errors old @ [m]\<rparr>))
     \<and> push errs nav (KeyFn f) = push errs nav (Msg (f ''object.list.field''))"
proof -
  have nav: "navigable input [''object'', ''list'', ''1'', ''field'']"
    by (simp add: terminal_def)
  have p: "foldl makePath [] [''object'', ''list'', ''1'', ''field''] = ''object.list[1].field''"
    by (simp add: makePath_def num_object num_list num_field num_one str_one)
  show ?thesis
    using navigate_navigable [of "createIssues input" "[''object'', ''list'', ''1'', ''field'']" errs] nav
    by (simp add: createIssues_def proxy_def p push_def key_object_list_field map_of_addError
          del: navigate.simps foldl.simps)
qed





section \<open>Properties of the validator\<close>

lemma getKey_empty: "getKey [] = []"
  by code_simp




lemma exception_message_cases:
  "getExceptionMessage [] ex ovr =
     (case (case ovr of None \<Rightarrow> None | Some f \<Rightarrow> f [] (ErrException ex)) of
        Some s \<Rightarrow> Inr s
      | None \<Rightarrow> (case error_message ex of
                   None \<Rightarrow> Inl TypeError_null_read
                 | Some m \<Rightarrow> Inr (''Exception: '' @ js_String m)))"
  by (simp add: getExceptionMessage_def getKey_empty Let_def)

text \<open>
  The validator returns a result unless the callback threw and composing the message for
  the thrown value raised; without a callback it always returns.
\<close>

lemma validator_raises_only_in_handler:
  "schemaValidator schema cb input ctx = Inl e \<Longrightarrow> cb \<noteq> None \<and> e = TypeError_null_read"
  by (auto simp: schemaValidator_def Let_def exception_message_cases
           split: prod.splits bool.splits option.splits sum.splits)

lemma validator_returns_without_callback:
  "\<exists>r. schemaValidator schema None input ctx = Inr r"
  by (cases "schemaValidator schema None input ctx")
     (auto dest: validator_raises_only_in_handler)

text \<open>
  C2. Whatever the schema, the input, the options and the callback, a result that the
  validator returns has \<open>success\<close> true exactly when its error map, as left by the
  structural pass, the callback and the demotion of a thrown exception, is empty.
\<close>

theorem success_iff_no_errors:
  "schemaValidator schema cb input ctx = Inr r \<Longrightarrow> success r = (errors r = [])"
  by (auto simp: schemaValidator_def make_result_def Let_def
           split: prod.splits bool.splits option.splits sum.splits)

theorem success_iff_no_errors_witness:
  "schemaValidator [(''a'', SPrim PNumber)]
     (Some (\<lambda>safeData issues ctx errs. (push errs issues (Msg ''no''), None)))
     (Plain (JObj [(''a'', JStr ''1'')])) None
   = Inr \<lparr>success = False, data = JObj [(''a'', JNum (Fin 1))],
          errors = [([], \<lparr>entry_value = [], entry_errors = [''no'']\<rparr>)]\<rparr>
   \<and> success \<lparr>success = False, data = JObj [(''a'', JNum (Fin 1))],
               errors = [([], \<lparr>entry_value = [], entry_errors = [''no'']\<rparr>)]\<rparr>
     = (errors \<lparr>success = False, data = JObj [(''a'', JNum (Fin 1))],
                 errors = [([], \<lparr>entry_value = [], entry_errors = [''no'']\<rparr>)]\<rparr> = [])"
proof -
  have h: "schemaValidator [(''a'', SPrim PNumber)]
     (Some (\<lambda>safeData issues ctx errs. (push errs issues (Msg ''no''), None)))
     (Plain (JObj [(''a'', JStr ''1'')])) None
   = Inr \<lparr>success = False, data = JObj [(''a'', JNum (Fin 1))],
          errors = [([], \<lparr>entry_value = [], entry_errors = [''no'']\<rparr>)]\<rparr>"
    by code_simp
  from success_iff_no_errors [OF h] h show ?thesis by simp
qed




text \<open>
  C5. The example of the specification: the result is a failure, the first error at
  \<^verbatim>\<open>age\<close> is the default type message, \<^verbatim>\<open>data.nickname\<close> is undefined and
  \<^verbatim>\<open>data.name\<close> is \<^verbatim>\<open>"Jo"\<close>.
\<close>

theorem example_name_age_nickname:
  "\<exists>r e. schemaValidator
       [(''name'', SPrim PString), (''age'', SPrim PNumber), (''nickname?'', SPrim PString)]
       None (Plain (JObj [(''name'', JStr ''Jo''), (''age'', JStr ''20x'')])) None = Inr r
     \<and> success r = False
     \<and> map_of (errors r) ''age'' = Some e
     \<and> entry_errors e ! 0 = ''Expected '' @ [CHR 0x27] @ ''number'' @ [CHR 0x27]
                               @ '', received '' @ [CHR 0x27] @ ''20x'' @ [CHR 0x27]
     \<and> js_get (data r) (KStr ''nickname'') = JUndefined
     \<and> js_get (data r) (KStr ''name'') = JStr ''Jo''
     \<and> r = \<lparr>success = False,
             data = JObj [(''name'', JStr ''Jo''), (''age'', JUndefined), (''nickname'', JUndefined)],
             errors = [(''age'', \<lparr>entry_value = ''20x'',
                         entry_errors = [''Expected '' @ [CHR 0x27] @ ''number'' @ [CHR 0x27]
                                           @ '', received '' @ [CHR 0x27] @ ''20x'' @ [CHR 0x27]]\<rparr>)]\<rparr>"
proof -
  have h: "schemaValidator
       [(''name'', SPrim PString), (''age'', SPrim PNumber), (''nickname?'', SPrim PString)]
       None (Plain (JObj [(''name'', JStr ''Jo''), (''age'', JStr ''20x'')])) None
     = Inr \<lparr>success = False,
             data = JObj [(''name'', JStr ''Jo''), (''age'', JUndefined), (''nickname'', JUndefined)],
             errors = [(''age'', \<lparr>entry_value = ''20x'',
                         entry_errors = [''Expected '' @ [CHR 0x27] @ ''number'' @ [CHR 0x27]
                                           @ '', received '' @ [CHR 0x27] @ ''20x'' @ [CHR 0x27]]\<rparr>)]\<rparr>"
    by code_simp
  have g1: "js_get (JObj [(''name'', JStr ''Jo''), (''age'', JUndefined), (''nickname'', JUndefined)])
              (KStr ''nickname'') = JUndefined"
    by code_simp
  have g2: "js_get (JObj [(''name'', JStr ''Jo''), (''age'', JUndefined), (''nickname'', JUndefined)])
              (KStr ''name'') = JStr ''Jo''"
    by code_simp
  show ?thesis
    unfolding h using g1 g2 by simp
qed


section \<open>Properties of the recursive validator\<close>

lemma errs_of_triple [simp]: "errs_of (t, s, e) = e"
  by (simp add: errs_of_def)



lemma validate_leaf:
  assumes "\<not> nullish (resolved path source als key)"
      and "\<not> nullish (coerce (resolved path source als key) (EPrim p))"
  shows "validate path (Property key als optional (TPrim p)) source opts (target, safeTarget, errs) =
     (js_set target key (coerce (resolved path source als key) (EPrim p)),
      js_set safeTarget key (defaultValue (Property key als optional (TPrim p))),
      errs)"
  using assms by (simp add: validate.simps resolved_def Let_def)

lemma coerce_array_not_nullish: "\<not> nullish (coerce input EArray)"
  by (cases input) auto

lemma validate_array:
  assumes "\<not> nullish (resolved path source als key)"
  shows "validate path (Property key als optional (TArr itemT)) source opts (target, safeTarget, errs) =
     (let sourceArr = coerce (resolved path source als key) EArray;
          limit = (case arrayLimit opts of Some l \<Rightarrow> l | None \<Rightarrow> DEFAULT_ARRAY_LIMIT)
      in if exceeds (length (array_elems sourceArr)) limit then
           (js_set target key (JArr [] []),
            js_set safeTarget key (JArr [] []),
            addError errs path
              (getErrorMessage path CArray sourceArr (errorMessage opts) (JNum limit)) JUndefined)
         else
           (case fold (\<lambda>i st. validate (itemPath path i)
                                 (Property (KIdx i) None False itemT) sourceArr opts st)
                   [0..<length (array_elems sourceArr)]
                   (JArr [] [], JArr [] [], errs) of
              (targetArr, safeTargetArr, errs1) \<Rightarrow>
                (js_set target key targetArr, js_set safeTarget key safeTargetArr, errs1)))"
  using assms coerce_array_not_nullish [of "resolved path source als key"]
  by (simp add: validate.simps resolved_def Let_def)

lemma validate_object:
  assumes "isObject (resolved path source als key)"
  shows "validate path (Property key als optional (TObj props)) source opts (target, safeTarget, errs) =
     (case fold (\<lambda>(childKey, childProp) st.
                   validate (childPath path childKey) childProp (resolved path source als key) opts st)
             props
             (if path = [] then (target, safeTarget, errs) else (JObj [], JObj [], errs)) of
        (targetObj, safeTargetObj, errs1) \<Rightarrow>
          if path = [] then (targetObj, safeTargetObj, errs1)
          else (js_set target key targetObj, js_set safeTarget key safeTargetObj, errs1))"
proof -
  from assms obtain kvs where "resolved path source als key = JObj kvs"
    by (cases "resolved path source als key") auto
  then show ?thesis
    by (simp add: validate.simps resolved_def Let_def)
qed

lemma coerce_object_nullish: "\<not> isObject input \<Longrightarrow> nullish (coerce input EObject)"
  by simp











section \<open>Flat sources\<close>

lemma norm_foo0: "replace_indices (\<lambda>ds. ''.'' @ ds) ''foo[0]'' = ''foo.0''"
  by code_simp

lemma norm_foo1: "replace_indices (\<lambda>ds. ''.'' @ ds) ''foo[1]'' = ''foo.1''"
  by code_simp

lemma split_foo0: "split_on CHR ''.'' ''foo.0'' = [''foo'', ''0'']"
  by code_simp

lemma split_foo1: "split_on CHR ''.'' ''foo.1'' = [''foo'', ''1'']"
  by code_simp

lemma numeric_0: "not_numeric ''0'' = False"
  by code_simp

lemma numeric_1: "not_numeric ''1'' = False"
  by code_simp

lemma index_0: "array_index ''0'' = Some 0"
  by code_simp

lemma index_1: "array_index ''1'' = Some 1"
  by code_simp

lemma index_foo: "array_index ''foo'' = None"
  by code_simp

lemma normalize_foo:
  "normalizeInput (Flat [(''foo[0]'', a), (''foo[1]'', b)])
     = JObj [(''foo'', JArr [JArr [a] [], JArr [b] []] [])]"
  by (simp add: normalizeInput_def dset_def norm_foo0 norm_foo1 split_foo0 split_foo1 getAll_def
        numeric_0 numeric_1 index_0 index_1 key_string_def lookup_def set_elem_def)

lemma normalize_plain: "normalizeInput (Plain v) = v"
  by (simp add: normalizeInput_def)

lemma schema_foo:
  "parseSchema [(''foo'', SArrPrim PString)]
     = [(''foo'', Property (KStr ''foo'') None False (TArr (TPrim PString)))]"
 
  by code_simp


lemma itemPath_nonempty: "itemPath path i \<noteq> []"
  by (simp add: itemPath_def)

lemma item_wrapped_or_bare:
  assumes "i < 2"
  shows "validate (itemPath path i) (Property (KIdx i) None False (TPrim PString))
           (JArr [JArr [JStr a] [], JArr [JStr b] []] []) opts st
       = validate (itemPath path i) (Property (KIdx i) None False (TPrim PString))
           (JArr [JStr a, JStr b] []) opts st"
proof -
  obtain t s e where st: "st = (t, s, e)" by (cases st)
  from assms have "i = 0 \<or> i = 1" by auto
  then show ?thesis
    unfolding st
    by (elim disjE)
       (simp_all add: validate_leaf resolved_def itemPath_nonempty elem_def)
qed

lemma array_message_length:
  "getErrorMessage path CArray (JArr [x1, x2] ps) ovr e
     = getErrorMessage path CArray (JArr [y1, y2] qs) ovr e"
  by (simp add: getErrorMessage_def)

lemma field_foo:
  "validate ''foo'' (Property (KStr ''foo'') None False (TArr (TPrim PString)))
     (JObj [(''foo'', JArr [JArr [JStr a] [], JArr [JStr b] []] [])]) opts st
   = validate ''foo'' (Property (KStr ''foo'') None False (TArr (TPrim PString)))
     (JObj [(''foo'', JArr [JStr a, JStr b] [])]) opts st"
proof -
  obtain t s e where st: "st = (t, s, e)" by (cases st)
  have r1: "resolved ''foo'' (JObj [(''foo'', JArr [JArr [JStr a] [], JArr [JStr b] []] [])]) None (KStr ''foo'')
              = JArr [JArr [JStr a] [], JArr [JStr b] []] []"
    by (simp add: resolved_def key_string_def lookup_def)
  have r2: "resolved ''foo'' (JObj [(''foo'', JArr [JStr a, JStr b] [])]) None (KStr ''foo'')
              = JArr [JStr a, JStr b] []"
    by (simp add: resolved_def key_string_def lookup_def)
  have items: "fold (\<lambda>i st. validate (itemPath ''foo'' i) (Property (KIdx i) None False (TPrim PString))
                        (JArr [JArr [JStr a] [], JArr [JStr b] []] []) opts st) [0..<Suc (Suc 0)] st0
             = fold (\<lambda>i st. validate (itemPath ''foo'' i) (Property (KIdx i) None False (TPrim PString))
                        (JArr [JStr a, JStr b] []) opts st) [0..<Suc (Suc 0)] st0" for st0
    by (rule fold_cong) (auto simp: item_wrapped_or_bare)
  show ?thesis
    unfolding st
    by (simp add: validate_array r1 r2 Let_def items
          array_message_length [of _ "JArr [JStr a] []" "JArr [JStr b] []" "[]" _ _ "JStr a" "JStr b" "[]"]
          del: upt_Suc)
qed

text \<open>
  C7. For the schema \<^verbatim>\<open>{ foo: ["string"] }\<close>, any two strings and any options, a form
  source with the entries \<^verbatim>\<open>foo[0]=a\<close> and \<^verbatim>\<open>foo[1]=b\<close> and the nested value
  \<^verbatim>\<open>{ foo: [a, b] }\<close> validate to the same result. (The normalised form source is
  \<^verbatim>\<open>{ foo: [[a], [b]] }\<close>; the element coercion unwraps the one-element arrays.)
  With the default options that result is a success with data \<^verbatim>\<open>{ foo: ["a", "b"] }\<close>.
\<close>

theorem flat_source_round_trip:
  "schemaValidator [(''foo'', SArrPrim PString)] None
     (Flat [(''foo[0]'', JStr a), (''foo[1]'', JStr b)]) ctx
   = schemaValidator [(''foo'', SArrPrim PString)] None
     (Plain (JObj [(''foo'', JArr [JStr a, JStr b] [])])) ctx
   \<and> schemaValidator [(''foo'', SArrPrim PString)] None
       (Flat [(''foo[0]'', JStr ''a''), (''foo[1]'', JStr ''b'')]) None
     = Inr \<lparr>success = True, data = JObj [(''foo'', JArr [JStr ''a'', JStr ''b''] [])], errors = []\<rparr>"
proof -
  have root: "validate [] (Property (KStr []) None False
                 (TObj [(''foo'', Property (KStr ''foo'') None False (TArr (TPrim PString)))]))
                 (JObj [(''foo'', JArr [JArr [JStr a] [], JArr [JStr b] []] [])]) opts st
            = validate [] (Property (KStr []) None False
                 (TObj [(''foo'', Property (KStr ''foo'') None False (TArr (TPrim PString)))]))
                 (JObj [(''foo'', JArr [JStr a, JStr b] [])]) opts st" for opts st
  proof -
    obtain t s e where st: "st = (t, s, e)" by (cases st)
    show ?thesis
      unfolding st
      by (simp add: validate_object resolved_def childPath_def field_foo)
  qed
  have same: "schemaValidator [(''foo'', SArrPrim PString)] None
       (Flat [(''foo[0]'', JStr a), (''foo[1]'', JStr b)]) ctx
     = schemaValidator [(''foo'', SArrPrim PString)] None
       (Plain (JObj [(''foo'', JArr [JStr a, JStr b] [])])) ctx"
    by (simp add: schemaValidator_def Let_def normalize_foo normalize_plain schema_foo
          isValidInput_def root)
  have concrete: "schemaValidator [(''foo'', SArrPrim PString)] None
       (Flat [(''foo[0]'', JStr ''a''), (''foo[1]'', JStr ''b'')]) None
     = Inr \<lparr>success = True, data = JObj [(''foo'', JArr [JStr ''a'', JStr ''b''] [])], errors = []\<rparr>"
    by code_simp
  from same concrete show ?thesis by (rule conjI)
qed



section \<open>Fields of the schema\<close>

lemma js_get_js_set_obj: "js_get (js_set (JObj kvs) key v) key = v"
  by (simp add: lookup_def map_of_upd)








text \<open>
  C1 does not hold of the code. At a primitive leaf whose input coerces, \<open>validate\<close>
  stores the coerced value in the render target only; in the safe target it stores the
  default of the type (lemma \<open>validate_leaf\<close>). For the schema \<^verbatim>\<open>{ name: "string" }\<close>
  and the input \<^verbatim>\<open>{ name: "Jo" }\<close> the safe data is \<^verbatim>\<open>{ name: "" }\<close>. So a callback
  that rejects ages under 18, as in the documentation of the package, rejects the age 25:
  the safe data it is given holds 0.
\<close>

theorem valid_leaf_safe_data_is_default:
  "validate ''name'' (Property (KStr ''name'') None False (TPrim PString))
     (JObj [(''name'', JStr ''Jo'')]) \<lparr>arrayLimit = None, errorMessage = None\<rparr>
     (JObj [], JObj [], [])
   = (JObj [(''name'', JStr ''Jo'')], JObj [(''name'', JStr [])], [])
   \<and> coerce (JStr ''Jo'') (EPrim PString) = JStr ''Jo''
   \<and> schemaValidator [(''age'', SPrim PNumber)]
       (Some (\<lambda>safeData issues ctx errs.
          (case js_get safeData (KStr ''age'') of
             JNum (Fin q) \<Rightarrow>
               if q < 18
               then (case navigate errs issues [''age''] of
                       Some nav \<Rightarrow> (push errs nav (Msg ''Must be 18 or older''), None)
                     | None \<Rightarrow> (errs, None))
               else (errs, None)
           | _ \<Rightarrow> (errs, None))))
       (Plain (JObj [(''age'', JStr ''25'')])) None
     = Inr \<lparr>success = False, data = JObj [(''age'', JNum (Fin 25))],
            errors = [(''age'', \<lparr>entry_value = ''25'',
                                  entry_errors = [''Must be 18 or older'']\<rparr>)]\<rparr>"
  by code_simp

end
